theory Spec2Isabelle
  imports Main "HOL-Library.AList"
begin

section \<open>Python values\<close>

text \<open>
  The operations of \<^verbatim>\<open>cleaned_inventory_system.py\<close> check the dynamic type of their
  arguments with \<^verbatim>\<open>isinstance\<close>, and \<^verbatim>\<open>load_data\<close> walks whatever \<^verbatim>\<open>json.load\<close>
  returned. Both are modelled over one datatype of Python values: the values a JSON
  document decodes to. A finite float is \<open>m * 2 ^ e\<close>, written \<open>Finite m e\<close>; JSON text
  such as \<^verbatim>\<open>1e999\<close> or \<^verbatim>\<open>Infinity\<close> decodes to an infinite float, \<^verbatim>\<open>NaN\<close> to a NaN.
\<close>

datatype pyfloat = Finite int int | Infinite bool | NaN

datatype pyval =
    PNone
  | PBool bool
  | PInt int
  | PFloat pyfloat
  | PStr string
  | PList "pyval list"
  | PDict "(pyval \<times> pyval) list"

text \<open>The exceptions the module raises or catches.\<close>

datatype error =
    ValueError string
  | KeyError string
  | TypeError
  | OverflowError

text \<open>\<^verbatim>\<open>isinstance(v, str)\<close>, and the string of a \<^verbatim>\<open>str\<close> value.\<close>

fun isinstance_str :: "pyval \<Rightarrow> bool" where
  "isinstance_str (PStr s) = True"
| "isinstance_str v = False"

fun str_val :: "pyval \<Rightarrow> string" where
  "str_val (PStr s) = s"
| "str_val v = []"

text \<open>
  \<^verbatim>\<open>isinstance(v, int)\<close>: in Python \<^verbatim>\<open>bool\<close> is a subclass of \<^verbatim>\<open>int\<close>, so \<^verbatim>\<open>True\<close> and
  \<^verbatim>\<open>False\<close> pass the check and count as 1 and 0 in arithmetic and comparisons.
\<close>

fun isinstance_int :: "pyval \<Rightarrow> bool" where
  "isinstance_int (PInt n) = True"
| "isinstance_int (PBool b) = True"
| "isinstance_int v = False"

fun int_val :: "pyval \<Rightarrow> int" where
  "int_val (PInt n) = n"
| "int_val (PBool b) = (if b then 1 else 0)"
| "int_val v = 0"

text \<open>
  The builtin \<^verbatim>\<open>int(v)\<close> on a decoded JSON value. A float is truncated towards zero;
  an infinite float raises \<^verbatim>\<open>OverflowError\<close>, a NaN \<^verbatim>\<open>ValueError\<close>; \<^verbatim>\<open>None\<close>, lists and
  dicts raise \<^verbatim>\<open>TypeError\<close>. Which strings \<^verbatim>\<open>int\<close> accepts is the parameter
  \<open>int_of_str\<close> (\<open>None\<close> where \<^verbatim>\<open>int\<close> raises \<^verbatim>\<open>ValueError\<close>).
\<close>

definition trunc_float :: "int \<Rightarrow> int \<Rightarrow> int" where
  "trunc_float m e =
     (if 0 \<le> e then m * 2 ^ nat e
      else sgn m * (\<bar>m\<bar> div 2 ^ nat (- e)))"

fun py_int :: "(string \<Rightarrow> int option) \<Rightarrow> pyval \<Rightarrow> error + int" where
  "py_int int_of_str PNone = Inl TypeError"
| "py_int int_of_str (PBool b) = Inr (if b then 1 else 0)"
| "py_int int_of_str (PInt n) = Inr n"
| "py_int int_of_str (PFloat (Finite m e)) = Inr (trunc_float m e)"
| "py_int int_of_str (PFloat (Infinite neg)) = Inl OverflowError"
| "py_int int_of_str (PFloat NaN) = Inl (ValueError ''cannot convert float NaN to integer'')"
| "py_int int_of_str (PStr s) =
     (case int_of_str s of
        None \<Rightarrow> Inl (ValueError ''invalid literal for int() with base 10'')
      | Some n \<Rightarrow> Inr n)"
| "py_int int_of_str (PList xs) = Inl TypeError"
| "py_int int_of_str (PDict kvs) = Inl TypeError"

text \<open>
  Writing an \<^verbatim>\<open>int\<close> as decimal text (\<^verbatim>\<open>str\<close>, an f-string field, \<^verbatim>\<open>json.dump\<close>) raises
  \<^verbatim>\<open>ValueError\<close> when it has more than \<^verbatim>\<open>sys.int_info.default_max_str_digits\<close> = 4300
  digits, the sign not counted: that is, from \<open>10 ^ 4300\<close> on. \<^verbatim>\<open>True\<close> and \<^verbatim>\<open>False\<close> are
  written as these words. \<open>format_raises qty\<close> says that the field \<^verbatim>\<open>{qty}\<close> of an
  f-string raises, for \<open>qty\<close> an \<^verbatim>\<open>int\<close> or \<^verbatim>\<open>bool\<close>.
\<close>

definition int_max_str_digits :: nat where
  "int_max_str_digits = 4300"

definition exceeds_str_digits :: "int \<Rightarrow> bool" where
  "exceeds_str_digits n = (10 ^ int_max_str_digits \<le> \<bar>n\<bar>)"

definition digits_error :: error where
  "digits_error = ValueError
     (''Exceeds the limit (4300 digits) for integer string conversion; ''
      @ ''use sys.set_int_max_str_digits() to increase the limit'')"

fun format_raises :: "pyval \<Rightarrow> bool" where
  "format_raises (PInt n) = exceeds_str_digits n"
| "format_raises v = False"

section \<open>The inventory dictionary\<close>

text \<open>
  \<^verbatim>\<open>_stock_data\<close> is a Python dict from item name to quantity. A dict keeps its keys
  in insertion order, which \<^verbatim>\<open>check_low_items\<close> and \<^verbatim>\<open>json.dump\<close> observe, so it is an
  association list: \<open>dict_set\<close> overwrites a key in place or appends a new one,
  \<open>dict_pop\<close> removes it, \<open>dict_get\<close> reads it with a default. A list that
  represents a dict has distinct keys.
\<close>

type_synonym inventory = "(string \<times> int) list"

definition dict_get :: "inventory \<Rightarrow> string \<Rightarrow> int \<Rightarrow> int" where
  "dict_get d k dflt = (case map_of d k of None \<Rightarrow> dflt | Some v \<Rightarrow> v)"

definition dict_contains :: "inventory \<Rightarrow> string \<Rightarrow> bool" where
  "dict_contains d k = (map_of d k \<noteq> None)"

definition dict_set :: "inventory \<Rightarrow> string \<Rightarrow> int \<Rightarrow> inventory" where
  "dict_set d k v = AList.update k v d"

definition dict_pop :: "inventory \<Rightarrow> string \<Rightarrow> inventory" where
  "dict_pop d k = AList.delete k d"

definition well_formed :: "inventory \<Rightarrow> bool" where
  "well_formed d = distinct (map fst d)"

section \<open>Operations on the inventory\<close>

text \<open>
  Every operation takes the inventory and returns its outcome (\<open>Inl\<close> the exception
  raised, \<open>Inr\<close> the value returned) together with the inventory after the call.
\<close>

text \<open>
  \<^verbatim>\<open>add_item(item, qty, logs)\<close>. The entry appended to \<^verbatim>\<open>logs\<close> is kept as its three
  parts: the time stamp \<^verbatim>\<open>_now_str()\<close> (the argument \<open>now\<close>), the quantity and the item.
  With \<^verbatim>\<open>logs=None\<close> the entry goes to a fresh list that the caller never sees. The
  entry is an f-string with the field \<^verbatim>\<open>{qty}\<close>, built after \<^verbatim>\<open>_stock_data\<close> has been
  updated: when it raises, the call raises with the inventory already changed. The
  calls of \<^verbatim>\<open>logger\<close> do not raise (\<^verbatim>\<open>logging\<close> reports a formatting error on its own
  stream and goes on).
\<close>

datatype log_entry = Added string pyval string

definition add_item ::
  "pyval \<Rightarrow> pyval \<Rightarrow> log_entry list option \<Rightarrow> string \<Rightarrow> inventory
    \<Rightarrow> (error + log_entry list option) \<times> inventory" where
  "add_item item qty logs now stock =
     (if \<not> isinstance_str item \<or> str_val item = [] then
        (Inl (ValueError ''item must be a non-empty string''), stock)
      else if \<not> isinstance_int qty then
        (Inl (ValueError ''qty must be an integer''), stock)
      else
        let current = dict_get stock (str_val item) 0;
            new_qty = current + int_val qty;
            stock' = (if new_qty \<le> 0 then dict_pop stock (str_val item)
                      else dict_set stock (str_val item) new_qty)
        in (if format_raises qty then Inl digits_error
            else Inr (map_option (\<lambda>l. l @ [Added now qty (str_val item)]) logs),
            stock'))"

text \<open>
  \<^verbatim>\<open>remove_item(item, qty)\<close>. The \<^verbatim>\<open>KeyError\<close> carries the message
  \<^verbatim>\<open>Item '<item>' not found in inventory\<close>, the item between single quotes.
\<close>

definition not_found_message :: "string \<Rightarrow> string" where
  "not_found_message item =
     ''Item '' @ [CHR 0x27] @ item @ [CHR 0x27] @ '' not found in inventory''"

definition remove_item :: "pyval \<Rightarrow> pyval \<Rightarrow> inventory \<Rightarrow> (error + unit) \<times> inventory" where
  "remove_item item qty stock =
     (if \<not> isinstance_str item \<or> str_val item = [] then
        (Inl (ValueError ''item must be a non-empty string''), stock)
      else if \<not> isinstance_int qty \<or> int_val qty \<le> 0 then
        (Inl (ValueError ''qty to remove must be a positive integer''), stock)
      else if \<not> dict_contains stock (str_val item) then
        (Inl (KeyError (not_found_message (str_val item))), stock)
      else if dict_get stock (str_val item) 0 \<le> int_val qty then
        (Inr (), dict_pop stock (str_val item))
      else
        (Inr (), dict_set stock (str_val item)
                   (dict_get stock (str_val item) 0 - int_val qty)))"

text \<open>\<^verbatim>\<open>get_qty(item)\<close>.\<close>

definition get_qty :: "pyval \<Rightarrow> inventory \<Rightarrow> (error + int) \<times> inventory" where
  "get_qty item stock =
     (if \<not> isinstance_str item \<or> str_val item = [] then
        (Inl (ValueError ''item must be a non-empty string''), stock)
      else (Inr (dict_get stock (str_val item) 0), stock))"

text \<open>\<^verbatim>\<open>check_low_items(threshold)\<close>; the default threshold is 5.\<close>

definition default_threshold :: pyval where
  "default_threshold = PInt 5"

definition check_low_items :: "pyval \<Rightarrow> inventory \<Rightarrow> (error + string list) \<times> inventory" where
  "check_low_items threshold stock =
     (if \<not> isinstance_int threshold \<or> int_val threshold < 0 then
        (Inl (ValueError ''threshold must be a non-negative integer''), stock)
      else (Inr (map fst (filter (\<lambda>(name, qty). qty < int_val threshold) stock)), stock))"

section \<open>Files\<close>

text \<open>
  A path of the file system holds no file (\<open>None\<close>), or a file of one of three kinds.
  \<open>Unreadable\<close>: \<^verbatim>\<open>open\<close> or \<^verbatim>\<open>json.load\<close> raises something else than
  \<^verbatim>\<open>FileNotFoundError\<close> and \<^verbatim>\<open>JSONDecodeError\<close> (no permission, bytes that are not UTF-8,
  an integer literal of more than 4300 digits). \<open>Malformed\<close>: text for which
  \<^verbatim>\<open>json.load\<close> raises \<^verbatim>\<open>JSONDecodeError\<close>. \<open>Document\<close>: text that \<^verbatim>\<open>json.load\<close> decodes,
  kept as the value it decodes to, so that what \<^verbatim>\<open>json.dump\<close> has written in full for a
  dict of strings and integers decodes to that dict again. \<open>writable\<close> tells at which
  paths a file can be created or replaced.
\<close>

datatype file_content = Unreadable | Malformed | Document pyval

record filesystem =
  files :: "string \<Rightarrow> file_content option"
  writable :: "string \<Rightarrow> bool"

definition default_file :: string where
  "default_file = ''inventory.json''"

text \<open>
  The loop of \<^verbatim>\<open>load_data\<close> over \<^verbatim>\<open>data.items()\<close>, with \<open>cleaned\<close> the dict built so far.
  The inner \<^verbatim>\<open>except (TypeError, ValueError)\<close> skips the entry; any other exception of
  \<^verbatim>\<open>int(v)\<close> leaves the loop.
\<close>

fun clean_items ::
  "(string \<Rightarrow> int option) \<Rightarrow> (pyval \<times> pyval) list \<Rightarrow> inventory \<Rightarrow> error + inventory" where
  "clean_items int_of_str [] cleaned = Inr cleaned"
| "clean_items int_of_str ((k, v) # rest) cleaned =
     (if \<not> isinstance_str k then clean_items int_of_str rest cleaned
      else case py_int int_of_str v of
             Inl TypeError \<Rightarrow> clean_items int_of_str rest cleaned
           | Inl (ValueError msg) \<Rightarrow> clean_items int_of_str rest cleaned
           | Inl e \<Rightarrow> Inl e
           | Inr vi \<Rightarrow>
               if 0 < vi then clean_items int_of_str rest (dict_set cleaned (str_val k) vi)
               else clean_items int_of_str rest cleaned)"

text \<open>
  \<^verbatim>\<open>load_data(file)\<close>. Each \<^verbatim>\<open>except\<close> clause only logs, so on every exception the
  inventory is the one before the call.
\<close>

definition load_data ::
  "(string \<Rightarrow> int option) \<Rightarrow> filesystem \<Rightarrow> string \<Rightarrow> inventory \<Rightarrow> inventory" where
  "load_data int_of_str fs file stock =
     (case files fs file of
        None \<Rightarrow> stock
      | Some Unreadable \<Rightarrow> stock
      | Some Malformed \<Rightarrow> stock
      | Some (Document data) \<Rightarrow>
          (case data of
             PDict items \<Rightarrow>
               (case clean_items int_of_str items [] of
                  Inl e \<Rightarrow> stock
                | Inr cleaned \<Rightarrow> cleaned)
           | _ \<Rightarrow> stock))"




section \<open>Invariant and reachable inventories\<close>

text \<open>Every stored quantity is strictly positive.\<close>

definition positive :: "inventory \<Rightarrow> bool" where
  "positive d = list_all (\<lambda>(name, qty). 0 < qty) d"

text \<open>
  The inventories the module can hold: \<^verbatim>\<open>_stock_data\<close> starts empty and is changed only
  by calls of the operations, with any arguments and, for \<^verbatim>\<open>load_data\<close>, any file system.
  \<^verbatim>\<open>save_data\<close> does not touch the inventory.
\<close>

inductive reachable :: "(string \<Rightarrow> int option) \<Rightarrow> inventory \<Rightarrow> bool"
  for int_of_str :: "string \<Rightarrow> int option" where
  start: "reachable int_of_str []"
| add: "reachable int_of_str stock \<Longrightarrow>
        reachable int_of_str (snd (add_item item qty logs now stock))"
| remove: "reachable int_of_str stock \<Longrightarrow>
        reachable int_of_str (snd (remove_item item qty stock))"
| get: "reachable int_of_str stock \<Longrightarrow>
        reachable int_of_str (snd (get_qty item stock))"
| low: "reachable int_of_str stock \<Longrightarrow>
        reachable int_of_str (snd (check_low_items threshold stock))"
| load: "reachable int_of_str stock \<Longrightarrow>
        reachable int_of_str (load_data int_of_str fs file stock)"

section \<open>Errors as the specification names them\<close>

text \<open>
  The specification's \<open>InvalidArgument\<close> is Python's \<^verbatim>\<open>ValueError\<close>, its \<open>NotFound\<close>
  is \<^verbatim>\<open>KeyError\<close>.
\<close>

fun is_invalid_argument :: "error + 'a \<Rightarrow> bool" where
  "is_invalid_argument (Inl (ValueError msg)) = True"
| "is_invalid_argument r = False"

fun is_not_found :: "error + 'a \<Rightarrow> bool" where
  "is_not_found (Inl (KeyError k)) = True"
| "is_not_found r = False"

section \<open>What a load keeps\<close>

text \<open>
  The specification's words for the cleaned result of a load: an entry is kept when its
  key is text and its value can be coerced to an integer that is strictly positive; it
  is kept under that key with the coerced value.
\<close>

definition coerce_entry ::
  "(string \<Rightarrow> int option) \<Rightarrow> pyval \<times> pyval \<Rightarrow> (string \<times> int) option" where
  "coerce_entry int_of_str entry =
     (case entry of
        (PStr name, v) \<Rightarrow>
          (case py_int int_of_str v of
             Inr n \<Rightarrow> if 0 < n then Some (name, n) else None
           | Inl e \<Rightarrow> None)
      | _ \<Rightarrow> None)"

text \<open>Some text-keyed value of the document is an infinite float.\<close>

definition raises_overflow :: "(string \<Rightarrow> int option) \<Rightarrow> (pyval \<times> pyval) list \<Rightarrow> bool" where
  "raises_overflow int_of_str items =
     list_ex (\<lambda>(k, v). isinstance_str k \<and> py_int int_of_str v = Inl OverflowError) items"

text \<open>
  File systems for the examples: an empty one where every path can be written, and
  one that holds an older \<^verbatim>\<open>inventory.json\<close> and where nothing can be written.
\<close>

definition fresh_disk :: filesystem where
  "fresh_disk = \<lparr>files = Map.empty, writable = (\<lambda>path. True)\<rparr>"



text \<open>A file with entries of every kind: kept, not coercible, not positive, fractional.\<close>

definition mixed_items :: "(pyval \<times> pyval) list" where
  "mixed_items =
     [(PStr ''fig'', PInt 3), (PStr ''kiwi'', PStr ''many''), (PStr ''pear'', PInt 0),
      (PStr ''plum'', PFloat (Finite 5 (- 1))), (PStr ''lime'', PNone),
      (PStr ''date'', PBool True)]"

definition mixed_disk :: filesystem where
  "mixed_disk = \<lparr>files = [''inventory.json'' \<mapsto> Document (PDict mixed_items)],
                  writable = (\<lambda>path. True)\<rparr>"

section \<open>Facts about the digit limit\<close>

lemma limit_above_100: "(100::int) \<le> 10 ^ int_max_str_digits"
proof -
  have "(10::int) ^ 2 \<le> 10 ^ int_max_str_digits"
    by (rule power_increasing) (simp_all add: int_max_str_digits_def)
  then show ?thesis by simp
qed

lemma within_limit: "\<bar>n\<bar> < 100 \<Longrightarrow> \<not> exceeds_str_digits n"
  using limit_above_100 by (simp add: exceeds_str_digits_def)

lemma exceeds_limit:
  "exceeds_str_digits (10 ^ int_max_str_digits)"
  "exceeds_str_digits (- (10 ^ int_max_str_digits))"
  by (simp_all add: exceeds_str_digits_def)

section \<open>Facts about the dictionary operations\<close>

lemma map_of_dict_set: "map_of (dict_set d k v) = (map_of d)(k \<mapsto> v)"
  by (simp add: dict_set_def update_conv')

lemma map_of_dict_pop: "map_of (dict_pop d k) = (map_of d)(k := None)"
  by (simp add: dict_pop_def delete_conv')

lemma well_formed_dict_set: "well_formed d \<Longrightarrow> well_formed (dict_set d k v)"
  by (simp add: well_formed_def dict_set_def distinct_update)

lemma well_formed_dict_pop: "well_formed d \<Longrightarrow> well_formed (dict_pop d k)"
  by (simp add: well_formed_def dict_pop_def distinct_delete)

lemma set_update_subset: "set (AList.update k v d) \<subseteq> insert (k, v) (set d)"
  by (induction d) auto

lemma positive_dict_set: "positive d \<Longrightarrow> 0 < v \<Longrightarrow> positive (dict_set d k v)"
  using set_update_subset [of k v d]
  by (auto simp: positive_def dict_set_def list_all_iff)

lemma positive_dict_pop: "positive d \<Longrightarrow> positive (dict_pop d k)"
  by (auto simp: positive_def dict_pop_def list_all_iff AList.delete_eq)

lemma dict_set_fresh: "k \<notin> fst ` set d \<Longrightarrow> dict_set d k v = d @ [(k, v)]"
  unfolding dict_set_def by (induction d) auto

lemma low_names:
  "distinct (map fst d) \<Longrightarrow>
   set (map fst (filter (\<lambda>(name, qty). qty < t) d))
     = {name. \<exists>qty. map_of d name = Some qty \<and> qty < (t::int)}"
proof (induction d)
  case Nil
  then show ?case by simp
next
  case (Cons p d)
  obtain k q where p: "p = (k, q)" by (cases p)
  from Cons.prems p have fresh: "map_of d k = None"
    by (simp add: map_of_eq_None_iff)
  from Cons have ih: "set (map fst (filter (\<lambda>(name, qty). qty < t) d))
      = {name. \<exists>qty. map_of d name = Some qty \<and> qty < t}" by simp
  show ?case
    unfolding p using ih fresh by (auto split: if_splits)
qed

section \<open>add\<close>

text \<open>
  C3. For every inventory, every non-empty string \<open>item\<close> and every integer \<open>qty\<close>
  (negative ones too), \<open>add_item\<close> works with the total \<open>current + qty\<close>, where
  \<open>current\<close> is the stored quantity or 0: when the total is at most 0 the item is no
  longer stored and \<open>get_qty\<close> returns 0 for it, otherwise \<open>get_qty\<close> returns the
  total. No other item changes. This is the inventory after the call whether it returns
  or raises; it returns normally exactly when \<open>qty\<close> has at most 4300 digits.
\<close>

theorem add_item_total:
  assumes "item \<noteq> []"
  shows "fst (get_qty (PStr item) (snd (add_item (PStr item) (PInt qty) logs now stock)))
           = Inr (if dict_get stock item 0 + qty \<le> 0 then 0 else dict_get stock item 0 + qty)
       \<and> dict_contains (snd (add_item (PStr item) (PInt qty) logs now stock)) item
           = (0 < dict_get stock item 0 + qty)
       \<and> (\<forall>other. other \<noteq> item \<longrightarrow>
             map_of (snd (add_item (PStr item) (PInt qty) logs now stock)) other
               = map_of stock other)
       \<and> ((\<exists>logs'. fst (add_item (PStr item) (PInt qty) logs now stock) = Inr logs')
            \<longleftrightarrow> \<not> exceeds_str_digits qty)"
proof -
  from assms
  have state: "snd (add_item (PStr item) (PInt qty) logs now stock)
      = (if dict_get stock item 0 + qty \<le> 0 then dict_pop stock item
         else dict_set stock item (dict_get stock item 0 + qty))"
    by (simp add: add_item_def Let_def)
  from assms
  have 1: "fst (get_qty (PStr item) (snd (add_item (PStr item) (PInt qty) logs now stock)))
           = Inr (if dict_get stock item 0 + qty \<le> 0 then 0 else dict_get stock item 0 + qty)"
    unfolding state by (simp add: get_qty_def dict_get_def map_of_dict_set map_of_dict_pop)
  have 2: "dict_contains (snd (add_item (PStr item) (PInt qty) logs now stock)) item
           = (0 < dict_get stock item 0 + qty)"
    unfolding state by (simp add: dict_contains_def map_of_dict_set map_of_dict_pop)
  have 3: "\<forall>other. other \<noteq> item \<longrightarrow>
             map_of (snd (add_item (PStr item) (PInt qty) logs now stock)) other
               = map_of stock other"
    unfolding state by (simp add: map_of_dict_set map_of_dict_pop)
  from assms
  have 4: "(\<exists>logs'. fst (add_item (PStr item) (PInt qty) logs now stock) = Inr logs')
            \<longleftrightarrow> \<not> exceeds_str_digits qty"
    by (simp add: add_item_def Let_def)
  from 1 2 3 4 show ?thesis by (intro conjI)
qed

theorem add_item_total_witness:
  "''pear'' \<noteq> []
   \<and> fst (get_qty (PStr ''pear'')
            (snd (add_item (PStr ''pear'') (PInt (- 9)) None ''t'' [(''pear'', 9), (''fig'', 1)])))
       = Inr 0
   \<and> dict_contains
        (snd (add_item (PStr ''pear'') (PInt (- 9)) None ''t'' [(''pear'', 9), (''fig'', 1)]))
        ''pear'' = False
   \<and> fst (get_qty (PStr ''pear'')
            (snd (add_item (PStr ''pear'') (PInt 4) None ''t'' [(''pear'', 9), (''fig'', 1)])))
       = Inr 13
   \<and> (\<exists>logs'. fst (add_item (PStr ''pear'') (PInt 4) None ''t'' [(''pear'', 9), (''fig'', 1)])
                  = Inr logs')"
proof -
  have h: "''pear'' \<noteq> []" by simp
  have d: "dict_get [(''pear'', 9), (''fig'', 1)] ''pear'' 0 = 9"
    by (simp add: dict_get_def)
  have w: "\<not> exceeds_str_digits 4" by (rule within_limit) simp
  show ?thesis
    using h d w
      add_item_total [OF h, of "- 9" None "''t''" "[(''pear'', 9), (''fig'', 1)]"]
      add_item_total [OF h, of 4 None "''t''" "[(''pear'', 9), (''fig'', 1)]"]
    by simp
qed

section \<open>remove\<close>



section \<open>get\<close>

text \<open>
  C8. For every inventory and every non-empty string \<open>item\<close>, \<open>get_qty\<close> returns the
  stored quantity, or 0 when the item is not stored, and leaves the inventory as it
  is; on an item that is not a string, or is the empty string, it raises
  \<^verbatim>\<open>ValueError\<close> (InvalidArgument).
\<close>

theorem get_qty_returns:
  "(item \<noteq> [] \<longrightarrow>
      get_qty (PStr item) stock
        = (Inr (case map_of stock item of None \<Rightarrow> 0 | Some qty \<Rightarrow> qty), stock))
   \<and> (\<not> isinstance_str v \<or> v = PStr [] \<longrightarrow>
      get_qty v stock = (Inl (ValueError ''item must be a non-empty string''), stock))"
  by (cases v) (auto simp: get_qty_def dict_get_def)

theorem get_qty_returns_witness:
  "get_qty (PStr ''fig'') [(''pear'', 9), (''fig'', 1)] = (Inr 1, [(''pear'', 9), (''fig'', 1)])
   \<and> get_qty (PStr ''kiwi'') [(''pear'', 9), (''fig'', 1)] = (Inr 0, [(''pear'', 9), (''fig'', 1)])
   \<and> get_qty (PInt 3) [(''pear'', 9)]
       = (Inl (ValueError ''item must be a non-empty string''), [(''pear'', 9)])
   \<and> get_qty (PStr []) [(''pear'', 9)]
       = (Inl (ValueError ''item must be a non-empty string''), [(''pear'', 9)])"
  using get_qty_returns [of "''fig''" "[(''pear'', 9), (''fig'', 1)]" "PInt 3"]
    get_qty_returns [of "''kiwi''" "[(''pear'', 9), (''fig'', 1)]" "PStr []"]
    get_qty_returns [of "''kiwi''" "[(''pear'', 9)]" "PInt 3"]
    get_qty_returns [of "''kiwi''" "[(''pear'', 9)]" "PStr []"]
  by simp

section \<open>lowStock\<close>

text \<open>
  C9. For every inventory (a dict: distinct keys) and every non-negative integer
  threshold \<open>t\<close>, \<open>check_low_items\<close> returns, each once, exactly the stored items whose
  quantity is strictly less than \<open>t\<close>; on a threshold that is not an integer, or is
  negative, it raises \<^verbatim>\<open>ValueError\<close>. With threshold 5 on apple 10, banana 2 it returns
  the list holding banana alone.
\<close>

theorem check_low_items_exact:
  "(well_formed stock \<and> 0 \<le> t \<longrightarrow>
      (\<exists>names. check_low_items (PInt t) stock = (Inr names, stock)
         \<and> distinct names
         \<and> set names = {name. \<exists>qty. map_of stock name = Some qty \<and> qty < t}))
   \<and> (\<not> isinstance_int v \<or> int_val v < 0 \<longrightarrow>
        check_low_items v stock
          = (Inl (ValueError ''threshold must be a non-negative integer''), stock))
   \<and> check_low_items (PInt 5) [(''apple'', 10), (''banana'', 2)]
        = (Inr [''banana''], [(''apple'', 10), (''banana'', 2)])"
proof -
  have a: "well_formed stock \<and> 0 \<le> t \<longrightarrow>
      (\<exists>names. check_low_items (PInt t) stock = (Inr names, stock)
         \<and> distinct names
         \<and> set names = {name. \<exists>qty. map_of stock name = Some qty \<and> qty < t})"
  proof
    assume h: "well_formed stock \<and> 0 \<le> t"
    then have d: "distinct (map fst stock)" by (simp add: well_formed_def)
    let ?names = "map fst (filter (\<lambda>(name, qty). qty < t) stock)"
    have 1: "check_low_items (PInt t) stock = (Inr ?names, stock)"
      using h by (simp add: check_low_items_def)
    have 2: "distinct ?names"
      using d by (rule distinct_map_filter)
    have 3: "set ?names = {name. \<exists>qty. map_of stock name = Some qty \<and> qty < t}"
      using d by (rule low_names)
    show "\<exists>names. check_low_items (PInt t) stock = (Inr names, stock)
         \<and> distinct names
         \<and> set names = {name. \<exists>qty. map_of stock name = Some qty \<and> qty < t}"
      using 1 2 3 by (intro exI [of _ ?names] conjI)
  qed
  have b: "\<not> isinstance_int v \<or> int_val v < 0 \<longrightarrow>
        check_low_items v stock
          = (Inl (ValueError ''threshold must be a non-negative integer''), stock)"
    by (simp add: check_low_items_def)
  have c: "check_low_items (PInt 5) [(''apple'', 10), (''banana'', 2)]
        = (Inr [''banana''], [(''apple'', 10), (''banana'', 2)])"
    by (simp add: check_low_items_def)
  from a b c show ?thesis by (intro conjI)
qed

theorem check_low_items_exact_witness:
  "well_formed [(''pear'', 9), (''fig'', 1), (''kiwi'', 2)] \<and> (0::int) \<le> 3
   \<and> (\<exists>names. check_low_items (PInt 3) [(''pear'', 9), (''fig'', 1), (''kiwi'', 2)]
                  = (Inr names, [(''pear'', 9), (''fig'', 1), (''kiwi'', 2)])
        \<and> distinct names
        \<and> set names = {name. \<exists>qty. map_of [(''pear'', 9::int), (''fig'', 1), (''kiwi'', 2)] name = Some qty
                                  \<and> qty < 3})
   \<and> check_low_items (PInt 3) [(''pear'', 9), (''fig'', 1), (''kiwi'', 2)]
        = (Inr [''fig'', ''kiwi''], [(''pear'', 9), (''fig'', 1), (''kiwi'', 2)])
   \<and> check_low_items (PInt (- 1)) [(''pear'', 9)]
        = (Inl (ValueError ''threshold must be a non-negative integer''), [(''pear'', 9)])
   \<and> check_low_items (PFloat (Finite 3 0)) [(''pear'', 9)]
        = (Inl (ValueError ''threshold must be a non-negative integer''), [(''pear'', 9)])"
proof -
  have h: "well_formed [(''pear'', 9), (''fig'', 1), (''kiwi'', 2)] \<and> (0::int) \<le> 3"
    by (simp add: well_formed_def)
  have 1: "\<exists>names. check_low_items (PInt 3) [(''pear'', 9), (''fig'', 1), (''kiwi'', 2)]
                  = (Inr names, [(''pear'', 9), (''fig'', 1), (''kiwi'', 2)])
        \<and> distinct names
        \<and> set names = {name. \<exists>qty. map_of [(''pear'', 9::int), (''fig'', 1), (''kiwi'', 2)] name = Some qty
                                  \<and> qty < 3}"
    using h check_low_items_exact [of "[(''pear'', 9), (''fig'', 1), (''kiwi'', 2)]" 3 "PNone"]
    by blast
  have 2: "check_low_items (PInt 3) [(''pear'', 9), (''fig'', 1), (''kiwi'', 2)]
        = (Inr [''fig'', ''kiwi''], [(''pear'', 9), (''fig'', 1), (''kiwi'', 2)])"
    by (simp add: check_low_items_def)
  have 3: "check_low_items (PInt (- 1)) [(''pear'', 9)]
        = (Inl (ValueError ''threshold must be a non-negative integer''), [(''pear'', 9)])"
    using check_low_items_exact [of "[(''pear'', 9)]" 3 "PInt (- 1)"] by simp
  have 4: "check_low_items (PFloat (Finite 3 0)) [(''pear'', 9)]
        = (Inl (ValueError ''threshold must be a non-negative integer''), [(''pear'', 9)])"
    using check_low_items_exact [of "[(''pear'', 9)]" 3 "PFloat (Finite 3 0)"] by simp
  from h 1 2 3 4 show ?thesis by (intro conjI) simp_all
qed

section \<open>Errors\<close>

text \<open>
  C7. An invalid argument makes the call return \<^verbatim>\<open>ValueError\<close> (InvalidArgument) as its
  outcome: \<open>add_item\<close> exactly when the item is not a non-empty string, or the quantity
  is not an \<^verbatim>\<open>int\<close>, or the quantity is an \<^verbatim>\<open>int\<close> of more than 4300 digits (the
  \<^verbatim>\<open>ValueError\<close> of the log entry); \<open>remove_item\<close> exactly when the item is
  not a non-empty string or the quantity is not a positive \<^verbatim>\<open>int\<close>; \<open>get_qty\<close> exactly
  when the item is not a non-empty string; \<open>check_low_items\<close> exactly when the threshold
  is not a non-negative \<^verbatim>\<open>int\<close>. \<open>remove_item\<close> returns \<^verbatim>\<open>KeyError\<close> (NotFound)
  exactly when both arguments are valid and the item is not stored. An \<^verbatim>\<open>int\<close> is what
  \<^verbatim>\<open>isinstance(qty, int)\<close> accepts, which includes \<^verbatim>\<open>True\<close> and \<^verbatim>\<open>False\<close>.
\<close>

theorem invalid_arguments_raise:
  "(is_invalid_argument (fst (add_item item qty logs now stock))
      \<longleftrightarrow> \<not> isinstance_str item \<or> str_val item = [] \<or> \<not> isinstance_int qty
          \<or> format_raises qty)
   \<and> (is_invalid_argument (fst (remove_item item qty stock))
      \<longleftrightarrow> \<not> isinstance_str item \<or> str_val item = [] \<or> \<not> isinstance_int qty
          \<or> int_val qty \<le> 0)
   \<and> (is_not_found (fst (remove_item item qty stock))
      \<longleftrightarrow> isinstance_str item \<and> str_val item \<noteq> [] \<and> isinstance_int qty \<and> 0 < int_val qty
          \<and> map_of stock (str_val item) = None)
   \<and> (is_invalid_argument (fst (get_qty item stock))
      \<longleftrightarrow> \<not> isinstance_str item \<or> str_val item = [])
   \<and> (is_invalid_argument (fst (check_low_items threshold stock))
      \<longleftrightarrow> \<not> isinstance_int threshold \<or> int_val threshold < 0)"
proof -
  have a: "is_invalid_argument (fst (add_item item qty logs now stock))
      \<longleftrightarrow> \<not> isinstance_str item \<or> str_val item = [] \<or> \<not> isinstance_int qty
          \<or> format_raises qty"
    by (simp add: add_item_def Let_def digits_error_def)
  have r: "is_invalid_argument (fst (remove_item item qty stock))
      \<longleftrightarrow> \<not> isinstance_str item \<or> str_val item = [] \<or> \<not> isinstance_int qty
          \<or> int_val qty \<le> 0"
    by (simp add: remove_item_def)
  have k: "is_not_found (fst (remove_item item qty stock))
      \<longleftrightarrow> isinstance_str item \<and> str_val item \<noteq> [] \<and> isinstance_int qty \<and> 0 < int_val qty
          \<and> map_of stock (str_val item) = None"
    by (auto simp: remove_item_def dict_contains_def)
  have g: "is_invalid_argument (fst (get_qty item stock))
      \<longleftrightarrow> \<not> isinstance_str item \<or> str_val item = []"
    by (simp add: get_qty_def)
  have c: "is_invalid_argument (fst (check_low_items threshold stock))
      \<longleftrightarrow> \<not> isinstance_int threshold \<or> int_val threshold < 0"
    by (simp add: check_low_items_def)
  from a r k g c show ?thesis by (intro conjI)
qed

theorem invalid_arguments_raise_witness:
  "is_invalid_argument
     (fst (add_item (PStr ''pear'') (PFloat (Finite 3 0)) None ''t'' [(''pear'', 9)]))
   \<and> is_invalid_argument (fst (add_item (PStr []) (PInt 1) None ''t'' [(''pear'', 9)]))
   \<and> is_invalid_argument (fst (remove_item (PStr ''pear'') (PInt 0) [(''pear'', 9)]))
   \<and> is_not_found (fst (remove_item (PStr ''fig'') (PInt 1) [(''pear'', 9)]))
   \<and> is_invalid_argument (fst (get_qty PNone [(''pear'', 9)]))
   \<and> is_invalid_argument (fst (check_low_items (PInt (- 1)) [(''pear'', 9)]))"
  using invalid_arguments_raise
          [of "PStr ''pear''" "PFloat (Finite 3 0)" None "''t''" "[(''pear'', 9)]" "PInt (- 1)"]
        invalid_arguments_raise
          [of "PStr []" "PInt 1" None "''t''" "[(''pear'', 9)]" "PInt (- 1)"]
        invalid_arguments_raise
          [of "PStr ''pear''" "PInt 0" None "''t''" "[(''pear'', 9)]" "PInt (- 1)"]
        invalid_arguments_raise
          [of "PStr ''fig''" "PInt 1" None "''t''" "[(''pear'', 9)]" "PInt (- 1)"]
        invalid_arguments_raise
          [of "PNone" "PInt 1" None "''t''" "[(''pear'', 9)]" "PInt (- 1)"]
  by simp

text \<open>
  C10. The claim: whenever \<open>add_item\<close>, \<open>remove_item\<close>, \<open>get_qty\<close> or
  \<open>check_low_items\<close> raises, the inventory is left as it was. \<open>add_item\<close> checks its
  arguments before it changes anything, but it builds the log entry after the change:
  with x 5 stored, adding \<open>- (10 ^ 4300)\<close> of x removes x and then raises \<^verbatim>\<open>ValueError\<close>,
  leaving the empty inventory.
\<close>

theorem add_item_raises_after_update:
  "fst (add_item (PStr ''x'') (PInt (- (10 ^ int_max_str_digits))) None ''t'' [(''x'', 5)])
     = Inl digits_error
   \<and> snd (add_item (PStr ''x'') (PInt (- (10 ^ int_max_str_digits))) None ''t'' [(''x'', 5)])
     = []
   \<and> [] \<noteq> [(''x'', 5::int)]"
proof -
  have total: "dict_get [(''x'', 5)] ''x'' 0 + - (10 ^ int_max_str_digits) \<le> 0"
    using limit_above_100 by (simp add: dict_get_def)
  show ?thesis
    using total exceeds_limit(2)
    by (simp add: add_item_def Let_def dict_pop_def)
qed

theorem add_item_raises_after_update_witness:
  "is_invalid_argument
     (fst (add_item (PStr ''x'') (PInt (- (10 ^ int_max_str_digits))) None ''t'' [(''x'', 5)]))
   \<and> snd (add_item (PStr ''x'') (PInt (- (10 ^ int_max_str_digits))) None ''t'' [(''x'', 5)])
       \<noteq> [(''x'', 5)]"
  using add_item_raises_after_update by (simp add: digits_error_def)

text \<open>
  What does hold: a call of \<open>remove_item\<close>, \<open>get_qty\<close> or \<open>check_low_items\<close> that
  raises, and a call of \<open>add_item\<close> that raises for another reason than the digits of
  its quantity, leaves the inventory as it was.
\<close>

theorem rejected_call_leaves_inventory:
  "(\<forall>e. fst (add_item item qty logs now stock) = Inl e \<and> \<not> format_raises qty \<longrightarrow>
        snd (add_item item qty logs now stock) = stock)
   \<and> (\<forall>e. fst (remove_item item qty stock) = Inl e \<longrightarrow>
        snd (remove_item item qty stock) = stock)
   \<and> (\<forall>e. fst (get_qty item stock) = Inl e \<longrightarrow> snd (get_qty item stock) = stock)
   \<and> (\<forall>e. fst (check_low_items threshold stock) = Inl e \<longrightarrow>
        snd (check_low_items threshold stock) = stock)"
proof -
  have a: "\<forall>e. fst (add_item item qty logs now stock) = Inl e \<and> \<not> format_raises qty \<longrightarrow>
        snd (add_item item qty logs now stock) = stock"
    by (simp add: add_item_def Let_def)
  have r: "\<forall>e. fst (remove_item item qty stock) = Inl e \<longrightarrow>
        snd (remove_item item qty stock) = stock"
    by (simp add: remove_item_def)
  have g: "\<forall>e. fst (get_qty item stock) = Inl e \<longrightarrow> snd (get_qty item stock) = stock"
    by (simp add: get_qty_def)
  have c: "\<forall>e. fst (check_low_items threshold stock) = Inl e \<longrightarrow>
        snd (check_low_items threshold stock) = stock"
    by (simp add: check_low_items_def)
  from a r g c show ?thesis by (intro conjI)
qed

theorem rejected_call_leaves_inventory_witness:
  "fst (add_item (PStr []) (PInt 1) None ''t'' [(''pear'', 9)])
      = Inl (ValueError ''item must be a non-empty string'')
   \<and> snd (add_item (PStr []) (PInt 1) None ''t'' [(''pear'', 9)]) = [(''pear'', 9)]
   \<and> fst (remove_item (PStr ''fig'') (PInt 1) [(''pear'', 9)])
      = Inl (KeyError (not_found_message ''fig''))
   \<and> snd (remove_item (PStr ''fig'') (PInt 1) [(''pear'', 9)]) = [(''pear'', 9)]"
proof -
  have a: "fst (add_item (PStr []) (PInt 1) None ''t'' [(''pear'', 9)])
      = Inl (ValueError ''item must be a non-empty string'')"
    by (simp add: add_item_def)
  have w: "\<not> format_raises (PInt 1)"
    using within_limit [of 1] by simp
  have r: "fst (remove_item (PStr ''fig'') (PInt 1) [(''pear'', 9)])
      = Inl (KeyError (not_found_message ''fig''))"
    by (simp add: remove_item_def dict_contains_def)
  from rejected_call_leaves_inventory
         [of "PStr []" "PInt 1" None "''t''" "[(''pear'', 9)]" "PInt 1"] a w
  have a': "snd (add_item (PStr []) (PInt 1) None ''t'' [(''pear'', 9)]) = [(''pear'', 9)]"
    by blast
  from rejected_call_leaves_inventory
         [of "PStr ''fig''" "PInt 1" None "''t''" "[(''pear'', 9)]" "PInt 1"] r
  have r': "snd (remove_item (PStr ''fig'') (PInt 1) [(''pear'', 9)]) = [(''pear'', 9)]"
    by blast
  from a a' r r' show ?thesis by (intro conjI)
qed

section \<open>The invariant\<close>

lemma positive_add_item: "positive stock \<Longrightarrow> positive (snd (add_item item qty logs now stock))"
  by (simp add: add_item_def Let_def positive_dict_set positive_dict_pop)

lemma positive_remove_item: "positive stock \<Longrightarrow> positive (snd (remove_item item qty stock))"
  by (simp add: remove_item_def positive_dict_set positive_dict_pop)

lemma positive_clean_items:
  "positive cleaned \<Longrightarrow> clean_items int_of_str items cleaned = Inr result \<Longrightarrow> positive result"
proof (induction int_of_str items cleaned rule: clean_items.induct)
  case (1 int_of_str cleaned)
  then show ?case by simp
next
  case (2 int_of_str k v rest cleaned)
  then show ?case
    by (auto simp: positive_dict_set split: if_splits sum.splits error.splits)
qed

lemma positive_load_data: "positive stock \<Longrightarrow> positive (load_data int_of_str fs file stock)"
proof -
  assume p: "positive stock"
  have e: "positive []" by (simp add: positive_def)
  show ?thesis
    using p positive_clean_items [OF e]
    by (auto simp: load_data_def split: option.splits file_content.splits pyval.splits sum.splits)
qed

lemma well_formed_add_item:
  "well_formed stock \<Longrightarrow> well_formed (snd (add_item item qty logs now stock))"
  by (simp add: add_item_def Let_def well_formed_dict_set well_formed_dict_pop)

lemma well_formed_remove_item:
  "well_formed stock \<Longrightarrow> well_formed (snd (remove_item item qty stock))"
  by (simp add: remove_item_def well_formed_dict_set well_formed_dict_pop)

lemma well_formed_clean_items:
  "well_formed cleaned \<Longrightarrow> clean_items int_of_str items cleaned = Inr result
    \<Longrightarrow> well_formed result"
proof (induction int_of_str items cleaned rule: clean_items.induct)
  case (1 int_of_str cleaned)
  then show ?case by simp
next
  case (2 int_of_str k v rest cleaned)
  then show ?case
    by (auto simp: well_formed_dict_set split: if_splits sum.splits error.splits)
qed

lemma well_formed_load_data:
  "well_formed stock \<Longrightarrow> well_formed (load_data int_of_str fs file stock)"
proof -
  assume p: "well_formed stock"
  have e: "well_formed []" by (simp add: well_formed_def)
  show ?thesis
    using p well_formed_clean_items [OF e]
    by (auto simp: load_data_def split: option.splits file_content.splits pyval.splits sum.splits)
qed

lemma reachable_well_formed: "reachable int_of_str stock \<Longrightarrow> well_formed stock"
proof (induction rule: reachable.induct)
  case start
  show ?case by (simp add: well_formed_def)
next
  case (add stock item qty logs now)
  then show ?case by (simp add: well_formed_add_item)
next
  case (remove stock item qty)
  then show ?case by (simp add: well_formed_remove_item)
next
  case (get stock item)
  then show ?case by (simp add: get_qty_def)
next
  case (low stock threshold)
  then show ?case by (simp add: check_low_items_def)
next
  case (load stock fs path)
  then show ?case by (simp add: well_formed_load_data)
qed

text \<open>
  C2. In every reachable inventory every stored quantity is strictly positive, and each
  of \<open>add_item\<close>, \<open>remove_item\<close> and \<open>load_data\<close> keeps an inventory of positive
  quantities one: a quantity that would be 0 or less is not stored.
\<close>

theorem quantities_positive:
  "(reachable int_of_str stock \<longrightarrow> (\<forall>(name, qty) \<in> set stock. 0 < qty))
   \<and> (positive stock \<longrightarrow>
        positive (snd (add_item item qty logs now stock))
        \<and> positive (snd (remove_item item qty stock))
        \<and> positive (load_data int_of_str fs file stock))"
proof -
  have inv: "reachable int_of_str stock \<Longrightarrow> positive stock"
  proof (induction rule: reachable.induct)
    case start
    show ?case by (simp add: positive_def)
  next
    case (add stock item qty logs now)
    then show ?case by (simp add: positive_add_item)
  next
    case (remove stock item qty)
    then show ?case by (simp add: positive_remove_item)
  next
    case (get stock item)
    then show ?case by (simp add: get_qty_def)
  next
    case (low stock threshold)
    then show ?case by (simp add: check_low_items_def)
  next
    case (load stock fs path)
    then show ?case by (simp add: positive_load_data)
  qed
  have 1: "reachable int_of_str stock \<longrightarrow> (\<forall>(name, qty) \<in> set stock. 0 < qty)"
    using inv by (simp add: positive_def list_all_iff)
  have 2: "positive stock \<longrightarrow>
        positive (snd (add_item item qty logs now stock))
        \<and> positive (snd (remove_item item qty stock))
        \<and> positive (load_data int_of_str fs file stock)"
    by (simp add: positive_add_item positive_remove_item positive_load_data)
  from 1 2 show ?thesis by (intro conjI)
qed

theorem quantities_positive_witness:
  "reachable (\<lambda>s. None) [(''apple'', 7)]
   \<and> positive [(''apple'', 7)]
   \<and> positive (snd (add_item (PStr ''apple'') (PInt (- 7)) None ''t'' [(''apple'', 7)]))
   \<and> positive (snd (remove_item (PStr ''apple'') (PInt 9) [(''apple'', 7)]))
   \<and> positive (load_data (\<lambda>s. None)
        \<lparr>files = (\<lambda>p. Some (Document (PDict [(PStr ''fig'', PInt 0), (PStr ''kiwi'', PInt 2)]))),
          writable = (\<lambda>p. True)\<rparr> ''inventory.json'' [(''apple'', 7)])"
proof -
  have "reachable (\<lambda>s. None)
          (snd (remove_item (PStr ''apple'') (PInt 3)
            (snd (add_item (PStr ''apple'') (PInt 10) None ''t'' []))))"
    by (intro reachable.remove reachable.add reachable.start)
  then have r: "reachable (\<lambda>s. None) [(''apple'', 7)]"
    by (simp add: add_item_def remove_item_def dict_get_def dict_contains_def
          dict_set_def dict_pop_def)
  have p: "positive [(''apple'', 7)]"
    using r quantities_positive [of "\<lambda>s. None" "[(''apple'', 7)]"]
    by (simp add: positive_def)
  show ?thesis
    using r p
      quantities_positive [of "\<lambda>s. None" "[(''apple'', 7)]" "PStr ''apple''" "PInt (- 7)" None "''t''"]
      quantities_positive [of "\<lambda>s. None" "[(''apple'', 7)]" "PStr ''apple''" "PInt 9" None "''t''"
         "\<lparr>files = (\<lambda>p. Some (Document (PDict [(PStr ''fig'', PInt 0), (PStr ''kiwi'', PInt 2)]))),
          writable = (\<lambda>p. True)\<rparr>" "''inventory.json''"]
    by blast
qed

section \<open>load\<close>

lemma py_int_no_KeyError: "py_int int_of_str v \<noteq> Inl (KeyError k)"
  by (induction int_of_str v rule: py_int.induct) (auto split: option.splits)

lemma clean_items_skip:
  "coerce_entry int_of_str (k, v) = None \<Longrightarrow>
   \<not> (isinstance_str k \<and> py_int int_of_str v = Inl OverflowError) \<Longrightarrow>
   clean_items int_of_str ((k, v) # rest) cleaned = clean_items int_of_str rest cleaned"
  using py_int_no_KeyError [of int_of_str v]
  by (cases k) (auto simp: coerce_entry_def split: sum.splits error.splits if_splits)

lemma clean_items_keep:
  "coerce_entry int_of_str (k, v) = Some (name, n) \<Longrightarrow>
   clean_items int_of_str ((k, v) # rest) cleaned
     = clean_items int_of_str rest (dict_set cleaned name n)"
  by (cases k) (auto simp: coerce_entry_def split: sum.splits error.splits if_splits)

lemma clean_items_kept:
  "\<not> raises_overflow int_of_str items \<Longrightarrow>
   distinct (map fst (cleaned @ List.map_filter (coerce_entry int_of_str) items)) \<Longrightarrow>
   clean_items int_of_str items cleaned
     = Inr (cleaned @ List.map_filter (coerce_entry int_of_str) items)"
proof (induction items arbitrary: cleaned)
  case Nil
  then show ?case by simp
next
  case (Cons entry rest)
  obtain k v where entry: "entry = (k, v)" by (cases entry)
  from Cons.prems(1) entry have no: "\<not> raises_overflow int_of_str rest"
    and here: "\<not> (isinstance_str k \<and> py_int int_of_str v = Inl OverflowError)"
    by (simp_all add: raises_overflow_def)
  show ?case
  proof (cases "coerce_entry int_of_str (k, v)")
    case None
    then have same: "List.map_filter (coerce_entry int_of_str) (entry # rest)
        = List.map_filter (coerce_entry int_of_str) rest"
      using entry by simp
    have "clean_items int_of_str (entry # rest) cleaned = clean_items int_of_str rest cleaned"
      unfolding entry using None here by (rule clean_items_skip)
    also have "\<dots> = Inr (cleaned @ List.map_filter (coerce_entry int_of_str) rest)"
      using no Cons.prems(2) same by (intro Cons.IH) simp_all
    finally show ?thesis using same by simp
  next
    case (Some kept)
    obtain name n where kept: "kept = (name, n)" by (cases kept)
    from Some kept entry have more: "List.map_filter (coerce_entry int_of_str) (entry # rest)
        = (name, n) # List.map_filter (coerce_entry int_of_str) rest"
      by simp
    from more Cons.prems(2) have fresh: "name \<notin> fst ` set cleaned" by auto
    from more Cons.prems(2)
    have d: "distinct (map fst ((cleaned @ [(name, n)])
               @ List.map_filter (coerce_entry int_of_str) rest))" by simp
    have "clean_items int_of_str (entry # rest) cleaned
        = clean_items int_of_str rest (dict_set cleaned name n)"
      unfolding entry using Some kept by (intro clean_items_keep) simp
    also have "\<dots> = clean_items int_of_str rest (cleaned @ [(name, n)])"
      using fresh by (simp add: dict_set_fresh)
    also have "\<dots> = Inr ((cleaned @ [(name, n)])
               @ List.map_filter (coerce_entry int_of_str) rest)"
      using no d by (rule Cons.IH)
    finally show ?thesis using more by simp
  qed
qed

lemma coerce_entry_key:
  "coerce_entry int_of_str entry = Some kept \<Longrightarrow> fst entry = PStr (fst kept)"
  by (cases entry, cases "fst entry")
     (auto simp: coerce_entry_def split: sum.splits if_splits)

lemma distinct_kept:
  "distinct (map fst items) \<Longrightarrow>
   distinct (map fst (List.map_filter (coerce_entry int_of_str) items))"
proof (induction items)
  case Nil
  then show ?case by simp
next
  case (Cons entry rest)
  show ?case
  proof (cases "coerce_entry int_of_str entry")
    case None
    with Cons show ?thesis by simp
  next
    case (Some kept)
    have "fst kept \<notin> fst ` set (List.map_filter (coerce_entry int_of_str) rest)"
    proof
      assume "fst kept \<in> fst ` set (List.map_filter (coerce_entry int_of_str) rest)"
      then obtain other where o: "other \<in> set (List.map_filter (coerce_entry int_of_str) rest)"
        and same: "fst other = fst kept" by auto
      from o obtain e where e: "e \<in> set rest" and c: "coerce_entry int_of_str e = Some other"
        by (auto simp: List.map_filter_def)
      from coerce_entry_key [OF c] coerce_entry_key [OF Some] same
      have "fst e = fst entry" by simp
      with e Cons.prems show False by (auto simp: rev_image_eqI)
    qed
    with Some Cons show ?thesis by simp
  qed
qed

text \<open>
  C1. The claim: whatever the inventory was, \<open>load_data\<close> on a missing file, on
  malformed JSON or on any other load error leaves the empty inventory and raises
  nothing. \<open>load_data\<close> raises nothing, but its \<^verbatim>\<open>except\<close> clauses only log (the first
  two with the words \<^verbatim>\<open>starting with empty inventory\<close>) and never assign \<^verbatim>\<open>_stock_data\<close>:
  with apple 10 stored, a load from a missing file, from malformed text, from an
  unreadable file and from a document that is not an object each leave apple 10.
\<close>

theorem load_data_failure_keeps_inventory:
  "load_data (\<lambda>s. None) fresh_disk ''inventory.json'' [(''apple'', 10)] = [(''apple'', 10)]
   \<and> load_data (\<lambda>s. None)
        \<lparr>files = [''inventory.json'' \<mapsto> Malformed], writable = (\<lambda>path. True)\<rparr>
        ''inventory.json'' [(''apple'', 10)] = [(''apple'', 10)]
   \<and> load_data (\<lambda>s. None)
        \<lparr>files = [''inventory.json'' \<mapsto> Unreadable], writable = (\<lambda>path. True)\<rparr>
        ''inventory.json'' [(''apple'', 10)] = [(''apple'', 10)]
   \<and> load_data (\<lambda>s. None)
        \<lparr>files = [''inventory.json'' \<mapsto> Document (PList [])], writable = (\<lambda>path. True)\<rparr>
        ''inventory.json'' [(''apple'', 10)] = [(''apple'', 10)]"
  by (simp add: load_data_def fresh_disk_def)

text \<open>
  C5. The claim: for every file that holds a JSON object, \<open>load_data\<close> replaces the
  inventory by the cleaned result, skipping each value that cannot be coerced to an
  integer. A value that decodes to an infinite float (the JSON number \<^verbatim>\<open>1e999\<close>) makes
  \<^verbatim>\<open>int(v)\<close> raise \<^verbatim>\<open>OverflowError\<close>, which the inner \<^verbatim>\<open>except (TypeError, ValueError)\<close>
  does not catch: the load stops and the inventory is not replaced. With apple 10
  stored and a file holding fig 3 and kiwi \<^verbatim>\<open>1e999\<close>, the inventory after the load is
  still apple 10, not fig 3.
\<close>

theorem load_data_overflow_aborts:
  "load_data (\<lambda>s. None)
     \<lparr>files = [''inventory.json'' \<mapsto>
                 Document (PDict [(PStr ''fig'', PInt 3), (PStr ''kiwi'', PFloat (Infinite False))])],
       writable = (\<lambda>path. True)\<rparr>
     ''inventory.json'' [(''apple'', 10)] = [(''apple'', 10)]"
  by (simp add: load_data_def dict_set_def)

text \<open>
  What does hold of a load: when the file holds a JSON object (a dict, so its keys are
  distinct) and no text-keyed value of it is an infinite float, \<open>load_data\<close> replaces
  the inventory, whatever it was, by exactly the kept entries, in the order of the file.
\<close>

theorem load_data_replaces:
  assumes "files fs file = Some (Document (PDict items))"
    and "distinct (map fst items)"
    and "\<not> raises_overflow int_of_str items"
  shows "load_data int_of_str fs file stock = List.map_filter (coerce_entry int_of_str) items"
proof -
  have d: "distinct (map fst ([] @ List.map_filter (coerce_entry int_of_str) items))"
    using assms(2) by (simp add: distinct_kept)
  have "clean_items int_of_str items []
      = Inr ([] @ List.map_filter (coerce_entry int_of_str) items)"
    using assms(3) d by (rule clean_items_kept)
  with assms(1) show ?thesis by (simp add: load_data_def)
qed

theorem load_data_replaces_witness:
  "files mixed_disk ''inventory.json'' = Some (Document (PDict mixed_items))
   \<and> distinct (map fst mixed_items)
   \<and> \<not> raises_overflow (\<lambda>s. None) mixed_items
   \<and> load_data (\<lambda>s. None) mixed_disk ''inventory.json'' [(''apple'', 10)]
       = [(''fig'', 3), (''plum'', 2), (''date'', 1)]"
proof -
  have 1: "files mixed_disk ''inventory.json'' = Some (Document (PDict mixed_items))"
    by (simp add: mixed_disk_def)
  have 2: "distinct (map fst mixed_items)"
    by (simp add: mixed_items_def)
  have 3: "\<not> raises_overflow (\<lambda>s. None) mixed_items"
    by (simp add: raises_overflow_def mixed_items_def)
  have 4: "List.map_filter (coerce_entry (\<lambda>s. None)) mixed_items
      = [(''fig'', 3), (''plum'', 2), (''date'', 1)]"
    by (simp add: mixed_items_def coerce_entry_def trunc_float_def)
  from 1 2 3 load_data_replaces [OF 1 2 3, of "[(''apple'', 10)]"] 4
  show ?thesis by simp
qed

section \<open>save, then load\<close>






end
